theory Spec2Isabelle
  imports Main "HOL-Library.Sublist"
begin

section \<open>The GraphQL HTTP handler (package handler)\<close>

text \<open>
  A shallow embedding of \<^verbatim>\<open>handler.go\<close> and \<^verbatim>\<open>graphiql.go\<close>. The functions of the
  package are translated one to one. What the package calls in other packages
  (\<^verbatim>\<open>encoding/json\<close>, \<^verbatim>\<open>net/http\<close>, \<^verbatim>\<open>html/template\<close>, \<^verbatim>\<open>graphql\<close>) is
  not part of the package: each such call is a field of the record \<open>library\<close>, an
  arbitrary function of its arguments, so every theorem holds for every behaviour of
  those packages. Where a record of Isabelle cannot use a field name twice, the later use
  has a suffix: \<open>Schema_p\<close> and \<open>OperationName_p\<close> of \<^verbatim>\<open>graphql.Params\<close>, \<open>Schema_c\<close> of
  \<^verbatim>\<open>Config\<close>, \<open>Files\<close> for the field \<^verbatim>\<open>File\<close> of \<^verbatim>\<open>multipart.Form\<close>.

  The repository holds a second copy of \<^verbatim>\<open>handler.go\<close> with other hooks and no error
  formatter; its \<^verbatim>\<open>getFromForm\<close>, \<^verbatim>\<open>getFromMultipartForm\<close> and
  \<^verbatim>\<open>NewRequestOptions\<close> are the same text as the ones modelled here.
\<close>

subsection \<open>url.Values, http.Header and strings\<close>

text \<open>\<^verbatim>\<open>url.Values\<close> and \<^verbatim>\<open>http.Header\<close> are both \<^verbatim>\<open>map[string][]string\<close>.\<close>

type_synonym Values = "string \<rightharpoonup> string list"

text \<open>\<^verbatim>\<open>Get\<close> returns the first value of the key, or the empty string.\<close>

definition Get :: "Values \<Rightarrow> string \<Rightarrow> string" where
  "Get v key = (case v key of None \<Rightarrow> [] | Some vs \<Rightarrow> (case vs of [] \<Rightarrow> [] | x # _ \<Rightarrow> x))"

text \<open>\<^verbatim>\<open>Header.Add\<close> appends a value to the key, \<^verbatim>\<open>Header.Set\<close> replaces its values.\<close>

definition Add :: "Values \<Rightarrow> string \<Rightarrow> string \<Rightarrow> Values" where
  "Add h key val = h(key \<mapsto> (case h key of None \<Rightarrow> [] | Some vs \<Rightarrow> vs) @ [val])"

definition Set_header :: "Values \<Rightarrow> string \<Rightarrow> string \<Rightarrow> Values" where
  "Set_header h key val = h(key \<mapsto> [val])"

text \<open>
  \<^verbatim>\<open>strings.Split(s, sep)\<close> for a separator of one byte (the package only splits at
  \<^verbatim>\<open>";"\<close>): the pieces of \<open>s\<close> between the separators, at least one piece.
\<close>

fun Split :: "string \<Rightarrow> char \<Rightarrow> string list" where
  "Split [] sep = [[]]"
| "Split (c # cs) sep =
     (if c = sep then [] # Split cs sep
      else (case Split cs sep of [] \<Rightarrow> [[c]] | t # ts \<Rightarrow> (c # t) # ts))"

text \<open>\<^verbatim>\<open>strings.Contains(s, substr)\<close>: \<open>substr\<close> occurs in \<open>s\<close> as a contiguous run.\<close>

fun Contains :: "string \<Rightarrow> string \<Rightarrow> bool" where
  "Contains [] substr = (substr = [])"
| "Contains (c # cs) substr = (prefix substr (c # cs) \<or> Contains cs substr)"

subsection \<open>Requests\<close>

text \<open>
  An \<^verbatim>\<open>io.Reader\<close> is the bytes it yields and how the stream ends: at end of file
  (\<open>None\<close>) or with a read error. \<^verbatim>\<open>ioutil.ReadAll\<close> returns both.
\<close>

datatype reader = Reader string "string option"

fun ReadAll :: "reader \<Rightarrow> string \<times> string option" where
  "ReadAll (Reader bytes err) = (bytes, err)"

text \<open>
  The fields of \<^verbatim>\<open>http.Request\<close> that the package reads. \<open>URLQuery\<close> is the value of
  \<^verbatim>\<open>r.URL.Query()\<close>; a \<^verbatim>\<open>nil\<close> body is \<open>None\<close>.
\<close>

record request =
  Method :: string
  URLQuery :: Values
  Header :: Values
  Body :: "reader option"

definition MethodPost :: string where
  "MethodPost = ''POST''"

definition StatusOK :: nat where
  "StatusOK = 200"

definition StatusInternalServerError :: nat where
  "StatusInternalServerError = 500"

text \<open>Pointers to values of other packages are opaque handles.\<close>

type_synonym FileHeader = nat
type_synonym schema = nat
type_synonym gocontext = nat

text \<open>\<^verbatim>\<open>multipart.Form\<close>.\<close>

record Form =
  Value :: Values
  Files :: "(string \<rightharpoonup> FileHeader list) option"

subsection \<open>Package variables and constants\<close>

text \<open>\<^verbatim>\<open>MaxUploadMemorySize\<close> is a variable that the package never assigns.\<close>

definition MaxUploadMemorySize :: int where
  "MaxUploadMemorySize = 1024 * 1024 * 10"

definition ContentTypeJSON :: string where
  "ContentTypeJSON = ''application/json''"

definition ContentTypeGraphQL :: string where
  "ContentTypeGraphQL = ''application/graphql''"

definition ContentTypeFormURLEncoded :: string where
  "ContentTypeFormURLEncoded = ''application/x-www-form-urlencoded''"

definition ContentTypeMultipartFormData :: string where
  "ContentTypeMultipartFormData = ''multipart/form-data''"

subsection \<open>RequestOptions, execution parameters and results\<close>

text \<open>
  \<open>'v\<close> is the type of the values an \<^verbatim>\<open>interface{}\<close> holds. A Go map is a partial
  function, and a \<^verbatim>\<open>nil\<close> map is \<open>None\<close>.
\<close>

type_synonym 'v gomap = "(string \<rightharpoonup> 'v) option"

record 'v RequestOptions =
  Query :: string
  Variables :: "'v gomap"
  OperationName :: string
  File :: "(string \<rightharpoonup> FileHeader list) option"

text \<open>The zero value \<^verbatim>\<open>RequestOptions{}\<close>.\<close>

definition zeroRequestOptions :: "'v RequestOptions" where
  "zeroRequestOptions = \<lparr>Query = [], Variables = None, OperationName = [], File = None\<rparr>"

text \<open>\<^verbatim>\<open>len(m) == 0\<close> for a map: it is \<^verbatim>\<open>nil\<close> or has no key.\<close>

definition emptyMap :: "'v gomap \<Rightarrow> bool" where
  "emptyMap m = (case m of None \<Rightarrow> True | Some f \<Rightarrow> f = Map.empty)"

text \<open>\<^verbatim>\<open>graphql.Params\<close>.\<close>

record 'v Params =
  Schema_p :: schema
  RequestString :: string
  VariableValues :: "'v gomap"
  OperationName_p :: string
  Context :: gocontext
  RootObject :: "'v gomap"

text \<open>
  \<^verbatim>\<open>gqlerrors.FormattedError\<close>: its message and the error it was made from, which
  \<^verbatim>\<open>OriginalError()\<close> returns (\<^verbatim>\<open>nil\<close> is \<open>None\<close>; an error is its text).
\<close>

record FormattedError =
  Message :: string
  originalError :: "string option"

definition OriginalError :: "FormattedError \<Rightarrow> string option" where
  "OriginalError e = originalError e"

text \<open>\<^verbatim>\<open>graphql.Result\<close>.\<close>

record 'v Result =
  Data :: "'v option"
  Errors :: "FormattedError list"

subsection \<open>The other packages\<close>

text \<open>
  One field for each call into another package. An error is its text; a call that
  returns a value and an error returns a pair, or a sum when the package reads only one
  of them. \<open>'s\<close> is the state of the execution engine and of what it resolves against:
  \<^verbatim>\<open>graphql.Do\<close> reads and changes it.

  \<^item> \<open>checkValid\<close>, \<open>decode_map\<close>, \<open>decode_options\<close>: the two halves of
    \<^verbatim>\<open>json.Unmarshal\<close>, see \<open>Unmarshal_map\<close> below;
  \<^item> \<open>ParseForm\<close>: \<^verbatim>\<open>r.ParseForm()\<close>, the error or \<^verbatim>\<open>r.PostForm\<close>;
  \<^item> \<open>ParseMultipartForm\<close>: \<^verbatim>\<open>r.ParseMultipartForm(n)\<close>, the error or
    \<^verbatim>\<open>r.MultipartForm\<close>;
  \<^item> \<open>Do\<close>: \<^verbatim>\<open>graphql.Do\<close>;
  \<^item> \<open>Marshal\<close>, \<open>MarshalIndent\<close>: \<^verbatim>\<open>json.Marshal\<close> and
    \<^verbatim>\<open>json.MarshalIndent\<close> (prefix, indent) of a result; \<open>MarshalIndent_map\<close> of a
    map;
  \<^item> \<open>ParseTemplate\<close>: the error of parsing the constant \<^verbatim>\<open>graphiqlTemplate\<close>;
  \<^item> \<open>ExecuteTemplate\<close>: \<^verbatim>\<open>t.ExecuteTemplate(w, "index", args)\<close> for the title in
    \<open>args\<close>: the byte slices it writes to \<open>w\<close>, one for each call of \<^verbatim>\<open>w.Write\<close> (none
    when it fails before it writes), and its error.
\<close>

record ('v, 's) library =
  checkValid :: "string \<Rightarrow> string option"
  decode_map :: "string \<Rightarrow> 'v gomap \<Rightarrow> 'v gomap \<times> string option"
  decode_options :: "string \<Rightarrow> 'v RequestOptions \<Rightarrow> 'v RequestOptions \<times> string option"
  ParseForm :: "request \<Rightarrow> string + Values"
  ParseMultipartForm :: "request \<Rightarrow> int \<Rightarrow> string + Form"
  Do :: "'v Params \<Rightarrow> 's \<Rightarrow> 'v Result \<times> 's"
  Marshal :: "'v Result \<Rightarrow> string \<times> string option"
  MarshalIndent :: "'v Result \<Rightarrow> string \<Rightarrow> string \<Rightarrow> string \<times> string option"
  MarshalIndent_map :: "'v gomap \<Rightarrow> string \<Rightarrow> string \<Rightarrow> string \<times> string option"
  ParseTemplate :: "string option"
  ExecuteTemplate :: "string \<Rightarrow> string list \<times> string option"

text \<open>
  \<^verbatim>\<open>json.Unmarshal(data, &v)\<close> first checks that \<open>data\<close> is well-formed JSON and
  returns the syntax error without touching \<open>v\<close>; only well-formed data is decoded
  into \<open>v\<close>, which may still fail (a value of the wrong type) after storing a part.
\<close>

definition Unmarshal_map ::
  "('v, 's) library \<Rightarrow> string \<Rightarrow> 'v gomap \<Rightarrow> 'v gomap \<times> string option" where
  "Unmarshal_map L data v =
     (case checkValid L data of Some err \<Rightarrow> (v, Some err) | None \<Rightarrow> decode_map L data v)"

definition Unmarshal_options ::
  "('v, 's) library \<Rightarrow> string \<Rightarrow> 'v RequestOptions \<Rightarrow> 'v RequestOptions \<times> string option" where
  "Unmarshal_options L data v =
     (case checkValid L data of Some err \<Rightarrow> (v, Some err) | None \<Rightarrow> decode_options L data v)"

subsection \<open>Resolving the request options\<close>

text \<open>A run-time panic of the Go program.\<close>

datatype panic = IndexOutOfRange | NilDereference | Panic string

definition getFromMultipartForm ::
  "('v, 's) library \<Rightarrow> Form \<Rightarrow> 'v RequestOptions option" where
  "getFromMultipartForm L form =
     (let values = Value form;
          query = Get values ''query''
      in if query \<noteq> [] then
           let variables = Some Map.empty;
               variablesStr = Get values ''variables'';
               variables = fst (Unmarshal_map L variablesStr variables)
           in Some \<lparr>Query = query, Variables = variables,
                    OperationName = Get values ''operationName'', File = Files form\<rparr>
         else None)"

definition getFromForm ::
  "('v, 's) library \<Rightarrow> Values \<Rightarrow> 'v RequestOptions option" where
  "getFromForm L values =
     (let query = Get values ''query''
      in if query \<noteq> [] then
           let variables = Some Map.empty;
               variablesStr = Get values ''variables'';
               variables = fst (Unmarshal_map L variablesStr variables)
           in Some \<lparr>Query = query, Variables = variables,
                    OperationName = Get values ''operationName'', File = None\<rparr>
         else None)"

text \<open>
  \<^verbatim>\<open>NewRequestOptions\<close>. Indexing \<^verbatim>\<open>contentTypeTokens[0]\<close> panics on an empty
  slice, so the result is a panic or the options. The case \<^verbatim>\<open>ContentTypeJSON\<close> of the
  switch falls through to the default case: both are the last branch here.
\<close>

definition NewRequestOptions ::
  "('v, 's) library \<Rightarrow> request \<Rightarrow> panic + 'v RequestOptions" where
  "NewRequestOptions L r =
     (case getFromForm L (URLQuery r) of
        Some reqOpt \<Rightarrow> Inr reqOpt
      | None \<Rightarrow>
          if Method r \<noteq> MethodPost then Inr zeroRequestOptions
          else (case Body r of
            None \<Rightarrow> Inr zeroRequestOptions
          | Some rbody \<Rightarrow>
              let contentTypeStr = Get (Header r) ''Content-Type'';
                  contentTypeTokens = Split contentTypeStr CHR '';''
              in (case contentTypeTokens of
                    [] \<Rightarrow> Inl IndexOutOfRange
                  | contentType # _ \<Rightarrow>
                      if contentType = ContentTypeGraphQL then
                        (case ReadAll rbody of
                           (body, Some err) \<Rightarrow> Inr zeroRequestOptions
                         | (body, None) \<Rightarrow> Inr (zeroRequestOptions\<lparr>Query := body\<rparr>))
                      else if contentType = ContentTypeFormURLEncoded then
                        (case ParseForm L r of
                           Inl err \<Rightarrow> Inr zeroRequestOptions
                         | Inr PostForm \<Rightarrow>
                             (case getFromForm L PostForm of
                                Some reqOpt \<Rightarrow> Inr reqOpt
                              | None \<Rightarrow> Inr zeroRequestOptions))
                      else if contentType = ContentTypeMultipartFormData then
                        (case ParseMultipartForm L r MaxUploadMemorySize of
                           Inl err \<Rightarrow> Inr zeroRequestOptions
                         | Inr MultipartForm \<Rightarrow>
                             (case getFromMultipartForm L MultipartForm of
                                Some reqOpt \<Rightarrow> Inr reqOpt
                              | None \<Rightarrow> Inr zeroRequestOptions))
                      else
                        (let opts = zeroRequestOptions
                         in (case ReadAll rbody of
                               (body, Some err) \<Rightarrow> Inr opts
                             | (body, None) \<Rightarrow> Inr (fst (Unmarshal_options L body opts)))))))"

subsection \<open>The response writer and the engine\<close>

text \<open>
  An \<^verbatim>\<open>http.ResponseWriter\<close>: its header map, the status code once it is written, and
  the bytes of the body. \<^verbatim>\<open>WriteHeader\<close> counts only the first time, and \<^verbatim>\<open>Write\<close>
  writes status 200 first when no status is written yet.
\<close>

record ResponseWriter =
  ResponseHeader :: Values
  Status :: "nat option"
  Written :: string

definition WriteHeader :: "nat \<Rightarrow> ResponseWriter \<Rightarrow> ResponseWriter" where
  "WriteHeader code w = (case Status w of None \<Rightarrow> w\<lparr>Status := Some code\<rparr> | Some _ \<Rightarrow> w)"

definition Write :: "string \<Rightarrow> ResponseWriter \<Rightarrow> ResponseWriter" where
  "Write b w = (let w = WriteHeader StatusOK w in w\<lparr>Written := Written w @ b\<rparr>)"

text \<open>
  What a request changes: the response writer \<open>w\<close>, the state of the engine, and a
  trace of the engine's executions and of the writes to the body, in the order they
  happen.
\<close>

datatype 'v event = Executed "'v Params" | Wrote string

record ('v, 's) world =
  response :: ResponseWriter
  engine :: 's
  trace :: "'v event list"

definition w_Header_Add :: "string \<Rightarrow> string \<Rightarrow> ('v, 's) world \<Rightarrow> ('v, 's) world" where
  "w_Header_Add key val \<sigma> =
     \<sigma>\<lparr>response := (response \<sigma>)\<lparr>ResponseHeader := Add (ResponseHeader (response \<sigma>)) key val\<rparr>\<rparr>"

definition w_Header_Set :: "string \<Rightarrow> string \<Rightarrow> ('v, 's) world \<Rightarrow> ('v, 's) world" where
  "w_Header_Set key val \<sigma> =
     \<sigma>\<lparr>response :=
         (response \<sigma>)\<lparr>ResponseHeader := Set_header (ResponseHeader (response \<sigma>)) key val\<rparr>\<rparr>"

definition w_WriteHeader :: "nat \<Rightarrow> ('v, 's) world \<Rightarrow> ('v, 's) world" where
  "w_WriteHeader code \<sigma> = \<sigma>\<lparr>response := WriteHeader code (response \<sigma>)\<rparr>"

definition w_Write :: "string \<Rightarrow> ('v, 's) world \<Rightarrow> ('v, 's) world" where
  "w_Write b \<sigma> = \<sigma>\<lparr>response := Write b (response \<sigma>), trace := trace \<sigma> @ [Wrote b]\<rparr>"

text \<open>
  \<^verbatim>\<open>http.Error(w, error, code)\<close>: a plain-text content type, the status, and the
  error's text on a line.
\<close>

definition http_Error :: "string \<Rightarrow> nat \<Rightarrow> ('v, 's) world \<Rightarrow> ('v, 's) world" where
  "http_Error err code \<sigma> =
     (let \<sigma> = w_Header_Set ''Content-Type'' ''text/plain; charset=utf-8'' \<sigma>;
          \<sigma> = w_Header_Set ''X-Content-Type-Options'' ''nosniff'' \<sigma>;
          \<sigma> = w_WriteHeader code \<sigma>
      in w_Write (err @ [CHR 0x0A]) \<sigma>)"

text \<open>\<^verbatim>\<open>graphql.Do(params)\<close>: the engine runs on its state, and the run is traced.\<close>

definition graphql_Do ::
  "('v, 's) library \<Rightarrow> 'v Params \<Rightarrow> ('v, 's) world \<Rightarrow> 'v Result \<times> ('v, 's) world" where
  "graphql_Do L params \<sigma> =
     (let (result, e) = Do L params (engine \<sigma>)
      in (result, \<sigma>\<lparr>engine := e, trace := trace \<sigma> @ [Executed params]\<rparr>))"

subsection \<open>graphiql.go\<close>

text \<open>
  Lines 267 to 274 of \<^verbatim>\<open>renderGraphiQL\<close>, for \<open>title\<close> the value of the package
  variable \<^verbatim>\<open>Title\<close>: the template \<^verbatim>\<open>index\<close> is executed on the response writer, which
  makes the writes \<open>page\<close> in turn.
\<close>

fun w_Writes :: "string list \<Rightarrow> ('v, 's) world \<Rightarrow> ('v, 's) world" where
  "w_Writes [] \<sigma> = \<sigma>"
| "w_Writes (b # bs) \<sigma> = w_Writes bs (w_Write b \<sigma>)"

definition executeIndex ::
  "('v, 's) library \<Rightarrow> string \<Rightarrow> ('v, 's) world \<Rightarrow> ('v, 's) world" where
  "executeIndex L title \<sigma> =
     (let (page, err) = ExecuteTemplate L title;
          \<sigma> = w_Writes page \<sigma>
      in (case err of
            Some err \<Rightarrow> http_Error err StatusInternalServerError \<sigma>
          | None \<Rightarrow> \<sigma>))"

text \<open>
  \<^verbatim>\<open>renderGraphiQL(w, params)\<close>. The bytes of both \<^verbatim>\<open>json.MarshalIndent\<close> calls are
  dropped, only their errors are read.
\<close>

definition renderGraphiQL ::
  "('v, 's) library \<Rightarrow> string \<Rightarrow> 'v Params \<Rightarrow> ('v, 's) world \<Rightarrow> ('v, 's) world" where
  "renderGraphiQL L title params \<sigma> =
     (case ParseTemplate L of
        Some err \<Rightarrow> http_Error err StatusInternalServerError \<sigma>
      | None \<Rightarrow>
          (case snd (MarshalIndent_map L (VariableValues params) [] ''  '') of
             Some err \<Rightarrow> http_Error err StatusInternalServerError \<sigma>
           | None \<Rightarrow>
               if RequestString params \<noteq> [] then
                 let (result, \<sigma>) = graphql_Do L params \<sigma>
                 in (case snd (MarshalIndent L result [] ''  '') of
                       Some err \<Rightarrow> http_Error err StatusInternalServerError \<sigma>
                     | None \<Rightarrow> executeIndex L title \<sigma>)
               else executeIndex L title \<sigma>))"

subsection \<open>The handler\<close>

text \<open>
  A \<^verbatim>\<open>nil\<close> function is \<open>None\<close>. The root object function is a function of its
  arguments; the result callback returns nothing, so it is what it does to the state
  outside the handler.
\<close>

type_synonym 'v RootObjectFn = "gocontext \<Rightarrow> request \<Rightarrow> 'v RequestOptions \<Rightarrow> 'v gomap"
type_synonym ('v, 's) ResultCallbackFn =
  "gocontext \<Rightarrow> 'v Params \<Rightarrow> 'v Result \<Rightarrow> string \<Rightarrow> 's \<Rightarrow> 's"

record ('v, 's) Handler =
  Schema :: "schema option"
  pretty :: bool
  graphiql :: bool
  rootObjectFn :: "'v RootObjectFn option"
  resultCallbackFn :: "('v, 's) ResultCallbackFn option"
  formatErrorFn :: "(string option \<Rightarrow> FormattedError) option"

text \<open>
  The loop of lines 157 to 159, for the formatter \<open>f\<close>: \<open>formatted\<close> is assigned at
  index \<open>i\<close> for each error in turn. An assignment outside the slice panics.
\<close>

fun formatLoop ::
  "(string option \<Rightarrow> FormattedError) \<Rightarrow> FormattedError list \<Rightarrow> nat \<Rightarrow> FormattedError list \<Rightarrow>
   panic + FormattedError list" where
  "formatLoop f [] i formatted = Inr formatted"
| "formatLoop f (formattedError # rest) i formatted =
     (if i < length formatted then
        formatLoop f rest (Suc i) (formatted[i := f (OriginalError formattedError)])
      else Inl IndexOutOfRange)"

text \<open>\<^verbatim>\<open>make([]gqlerrors.FormattedError, n)\<close>: \<open>n\<close> zero values.\<close>

definition make_FormattedErrors :: "nat \<Rightarrow> FormattedError list" where
  "make_FormattedErrors n = replicate n \<lparr>Message = [], originalError = None\<rparr>"

text \<open>Lines 155 to 161 of \<^verbatim>\<open>ContextHandler\<close>: the errors of the result are reformatted.\<close>

definition formatResult :: "('v, 's) Handler \<Rightarrow> 'v Result \<Rightarrow> panic + 'v Result" where
  "formatResult h result =
     (case formatErrorFn h of
        None \<Rightarrow> Inr result
      | Some f \<Rightarrow>
          if length (Errors result) > 0 then
            (let formatted = make_FormattedErrors (length (Errors result))
             in (case formatLoop f (Errors result) 0 formatted of
                   Inl p \<Rightarrow> Inl p
                 | Inr formatted \<Rightarrow> Inr (result\<lparr>Errors := formatted\<rparr>)))
          else Inr result)"

text \<open>Lines 170 to 186 of \<^verbatim>\<open>ContextHandler\<close>: the result is written as JSON.\<close>

definition writeJSON ::
  "('v, 's) library \<Rightarrow> ('v, 's) Handler \<Rightarrow> gocontext \<Rightarrow> 'v Params \<Rightarrow> 'v Result \<Rightarrow>
   ('v, 's) world \<Rightarrow> ('v, 's) world" where
  "writeJSON L h ctx params result \<sigma> =
     (let \<sigma> = w_Header_Add ''Content-Type'' ''application/json; charset=utf-8'' \<sigma>;
          (buff, \<sigma>) =
            (if pretty h then
               let \<sigma> = w_WriteHeader StatusOK \<sigma>;
                   buff = fst (MarshalIndent L result [] [CHR 0x09])
               in (buff, w_Write buff \<sigma>)
             else
               let \<sigma> = w_WriteHeader StatusOK \<sigma>;
                   buff = fst (Marshal L result)
               in (buff, w_Write buff \<sigma>))
      in (case resultCallbackFn h of
            Some f \<Rightarrow> \<sigma>\<lparr>engine := f ctx params result buff (engine \<sigma>)\<rparr>
          | None \<Rightarrow> \<sigma>))"

text \<open>Lines 144 to 153: the parameters of the execution.\<close>

definition newParams ::
  "('v, 's) Handler \<Rightarrow> schema \<Rightarrow> gocontext \<Rightarrow> request \<Rightarrow> 'v RequestOptions \<Rightarrow> 'v Params" where
  "newParams h schema ctx r opts =
     (let params = \<lparr>Schema_p = schema, RequestString = Query opts,
                     VariableValues = Variables opts, OperationName_p = OperationName opts,
                     Context = ctx, RootObject = None\<rparr>
      in (case rootObjectFn h of
            Some f \<Rightarrow> params\<lparr>RootObject := f ctx r opts\<rparr>
          | None \<Rightarrow> params))"

text \<open>
  \<^verbatim>\<open>ContextHandler\<close>. Dereferencing \<^verbatim>\<open>h.Schema\<close> panics when it is \<^verbatim>\<open>nil\<close>.
\<close>

definition ContextHandler ::
  "('v, 's) library \<Rightarrow> string \<Rightarrow> ('v, 's) Handler \<Rightarrow> gocontext \<Rightarrow> request \<Rightarrow>
   ('v, 's) world \<Rightarrow> panic + ('v, 's) world" where
  "ContextHandler L title h ctx r \<sigma> =
     (case NewRequestOptions L r of
        Inl p \<Rightarrow> Inl p
      | Inr opts \<Rightarrow>
          (case Schema h of
             None \<Rightarrow> Inl NilDereference
           | Some schema \<Rightarrow>
               let params = newParams h schema ctx r opts;
                   (result, \<sigma>) = graphql_Do L params \<sigma>
               in (case formatResult h result of
                     Inl p \<Rightarrow> Inl p
                   | Inr result \<Rightarrow>
                       if graphiql h then
                         let acceptHeader = Get (Header r) ''Accept'';
                             raw = (URLQuery r ''raw'' \<noteq> None)
                         in if \<not> raw \<and> \<not> Contains acceptHeader ''application/json'' \<and>
                               Contains acceptHeader ''text/html''
                            then Inr (renderGraphiQL L title params \<sigma>)
                            else Inr (writeJSON L h ctx params result \<sigma>)
                       else Inr (writeJSON L h ctx params result \<sigma>))))"

text \<open>\<^verbatim>\<open>ServeHTTP\<close>; \<^verbatim>\<open>r.Context()\<close> is passed in.\<close>

definition ServeHTTP ::
  "('v, 's) library \<Rightarrow> string \<Rightarrow> ('v, 's) Handler \<Rightarrow> gocontext \<Rightarrow> request \<Rightarrow>
   ('v, 's) world \<Rightarrow> panic + ('v, 's) world" where
  "ServeHTTP L title h rContext r \<sigma> = ContextHandler L title h rContext r \<sigma>"

subsection \<open>Configuration and construction\<close>

record ('v, 's) Config =
  Title :: string
  Schema_c :: "schema option"
  Pretty :: bool
  GraphiQL :: bool
  RootObjectFn :: "'v RootObjectFn option"
  ResultCallbackFn :: "('v, 's) ResultCallbackFn option"
  FormatErrorFn :: "(string option \<Rightarrow> FormattedError) option"

definition NewConfig :: "('v, 's) Config" where
  "NewConfig = \<lparr>Title = [], Schema_c = None, Pretty = True, GraphiQL = True,
                RootObjectFn = None, ResultCallbackFn = None, FormatErrorFn = None\<rparr>"

text \<open>
  \<^verbatim>\<open>New(p)\<close>, for \<open>title\<close> the value of the package variable \<^verbatim>\<open>Title\<close>: a panic, or
  the handler and the new value of \<^verbatim>\<open>Title\<close>.
\<close>

definition New ::
  "('v, 's) Config option \<Rightarrow> string \<Rightarrow> panic + (('v, 's) Handler \<times> string)" where
  "New p title =
     (let p = (case p of None \<Rightarrow> NewConfig | Some c \<Rightarrow> c)
      in if Schema_c p = None then Inl (Panic ''undefined GraphQL schema'')
         else
           let title = (if Title p \<noteq> [] then Title p else title)
           in Inr (\<lparr>Schema = Schema_c p, pretty = Pretty p, graphiql = GraphiQL p,
                     rootObjectFn = RootObjectFn p, resultCallbackFn = ResultCallbackFn p,
                     formatErrorFn = FormatErrorFn p\<rparr>, title))"

section \<open>Notions of the specification\<close>

text \<open>
  The media type of a request: its \<^verbatim>\<open>Content-Type\<close> header up to the first \<^verbatim>\<open>;\<close>.
\<close>

definition mediaType :: "request \<Rightarrow> string" where
  "mediaType r = takeWhile (\<lambda>c. c \<noteq> CHR '';'') (Get (Header r) ''Content-Type'')"

text \<open>
  The whole body of a request, when it can be read to its end; a \<^verbatim>\<open>nil\<close> body is no
  body, the empty string.
\<close>

definition rawBody :: "request \<Rightarrow> string option" where
  "rawBody r =
     (case Body r of
        None \<Rightarrow> Some []
      | Some rbody \<Rightarrow> (case ReadAll rbody of (body, None) \<Rightarrow> Some body | (body, Some err) \<Rightarrow> None))"


text \<open>
  The console decision in the words of the specification: the console is enabled, the
  query string has no key \<^verbatim>\<open>raw\<close>, and the \<^verbatim>\<open>Accept\<close> header contains \<^verbatim>\<open>text/html\<close>
  but not \<^verbatim>\<open>application/json\<close> as a substring.
\<close>

definition consoleRequested :: "('v, 's) Handler \<Rightarrow> request \<Rightarrow> bool" where
  "consoleRequested h r =
     (graphiql h \<and> URLQuery r ''raw'' = None \<and>
      \<not> sublist ''application/json'' (Get (Header r) ''Accept'') \<and>
      sublist ''text/html'' (Get (Header r) ''Accept''))"

section \<open>Test data\<close>

text \<open>
  A small instance of the other packages, a handler, requests and a fresh response, on
  which the theorems are evaluated. The JSON decoder of \<open>testLibrary\<close> knows the
  objects \<^verbatim>\<open>{}\<close> and \<^verbatim>\<open>{"x":1}\<close>; its engine reports two errors on every execution
  and counts the executions in its state.
\<close>

definition testLibrary :: "(nat, nat) library" where
  "testLibrary =
     \<lparr>checkValid = (\<lambda>data. if data = ''{}'' \<or> data = ''{\"x\":1}'' then None
                            else Some ''invalid character''),
      decode_map = (\<lambda>data v. if data = ''{\"x\":1}''
                              then (Some ((case v of None \<Rightarrow> Map.empty | Some m \<Rightarrow> m)(''x'' \<mapsto> 1)), None)
                              else (v, None)),
      decode_options = (\<lambda>data v. (v, None)),
      ParseForm = (\<lambda>r. case Body r of
                          None \<Rightarrow> Inl ''missing form body''
                        | Some rbody \<Rightarrow>
                            if fst (ReadAll rbody) = ''query={b}&variables=bad''
                            then Inr [''query'' \<mapsto> [''{b}''], ''variables'' \<mapsto> [''bad'']]
                            else Inl ''invalid URL escape''),
      ParseMultipartForm = (\<lambda>r n. Inl ''no multipart boundary param in Content-Type''),
      Do = (\<lambda>params e. (\<lparr>Data = None,
                           Errors = [\<lparr>Message = ''first'', originalError = Some ''cause''\<rparr>,
                                     \<lparr>Message = ''second'', originalError = None\<rparr>]\<rparr>, Suc e)),
      Marshal = (\<lambda>result. (''{}'', None)),
      MarshalIndent = (\<lambda>result prefix indent. (''{'' @ indent @ ''}'', None)),
      MarshalIndent_map = (\<lambda>m prefix indent. (''{}'', None)),
      ParseTemplate = None,
      ExecuteTemplate = (\<lambda>title. ([''<title>'', title], None))\<rparr>"

definition testHandler :: "(nat, nat) Handler" where
  "testHandler =
     \<lparr>Schema = Some 7, pretty = False, graphiql = True, rootObjectFn = None,
      resultCallbackFn = None,
      formatErrorFn = Some (\<lambda>err. \<lparr>Message = (case err of None \<Rightarrow> ''unknown''
                                                      | Some e \<Rightarrow> ''formatted '' @ e),
                                       originalError = err\<rparr>)\<rparr>"

definition freshWorld :: "(nat, nat) world" where
  "freshWorld =
     \<lparr>response = \<lparr>ResponseHeader = Map.empty, Status = None, Written = []\<rparr>,
      engine = 0, trace = []\<rparr>"

definition testOptions :: "nat RequestOptions" where
  "testOptions = \<lparr>Query = ''{a}'', Variables = Some Map.empty, OperationName = [], File = None\<rparr>"

definition testParams :: "nat Params" where
  "testParams =
     \<lparr>Schema_p = 7, RequestString = ''{a}'', VariableValues = Some Map.empty,
      OperationName_p = [], Context = 0, RootObject = None\<rparr>"

definition testResult :: "nat Result" where
  "testResult =
     \<lparr>Data = None,
      Errors = [\<lparr>Message = ''first'', originalError = Some ''cause''\<rparr>,
                \<lparr>Message = ''second'', originalError = None\<rparr>]\<rparr>"

definition testFormatted :: "nat Result" where
  "testFormatted =
     \<lparr>Data = None,
      Errors = [\<lparr>Message = ''formatted cause'', originalError = Some ''cause''\<rparr>,
                \<lparr>Message = ''unknown'', originalError = None\<rparr>]\<rparr>"

definition browserGet :: request where
  "browserGet =
     \<lparr>Method = ''GET'', URLQuery = [''query'' \<mapsto> [''{a}'']],
      Header = [''Accept'' \<mapsto> [''text/html,application/xhtml+xml'']], Body = None\<rparr>"

definition apiGet :: request where
  "apiGet =
     \<lparr>Method = ''GET'', URLQuery = [''query'' \<mapsto> [''{a}'']],
      Header = [''Accept'' \<mapsto> [''application/json'']], Body = None\<rparr>"

definition formPost :: request where
  "formPost =
     \<lparr>Method = ''POST'',
      URLQuery = [''query'' \<mapsto> [''{a}''], ''variables'' \<mapsto> [''{\"x\":1}'']],
      Header = [''Content-Type'' \<mapsto> [''application/x-www-form-urlencoded'']],
      Body = Some (Reader ''query={b}&variables=bad'' None)\<rparr>"

section \<open>The request options resolver\<close>

lemma Split_takeWhile: "\<exists>ts. Split s sep = takeWhile (\<lambda>c. c \<noteq> sep) s # ts"
  by (induction s) auto

lemma getFromForm_None: "Get values ''query'' = [] \<Longrightarrow> getFromForm L values = None"
  by (simp add: getFromForm_def)

lemma getFromForm_Some:
  "Get values ''query'' \<noteq> [] \<Longrightarrow>
   getFromForm L values =
     Some \<lparr>Query = Get values ''query'',
           Variables = fst (Unmarshal_map L (Get values ''variables'') (Some Map.empty)),
           OperationName = Get values ''operationName'', File = None\<rparr>"
  by (simp add: getFromForm_def Let_def)

lemma getFromMultipartForm_None:
  "Get (Value form) ''query'' = [] \<Longrightarrow> getFromMultipartForm L form = None"
  by (simp add: getFromMultipartForm_def)

lemma getFromMultipartForm_Some:
  "Get (Value form) ''query'' \<noteq> [] \<Longrightarrow>
   getFromMultipartForm L form =
     Some \<lparr>Query = Get (Value form) ''query'',
           Variables = fst (Unmarshal_map L (Get (Value form) ''variables'') (Some Map.empty)),
           OperationName = Get (Value form) ''operationName'', File = Files form\<rparr>"
  by (simp add: getFromMultipartForm_def Let_def)

lemma Unmarshal_map_invalid:
  "checkValid L data \<noteq> None \<Longrightarrow> Unmarshal_map L data v = (v, checkValid L data)"
  by (auto simp: Unmarshal_map_def)



lemma NewRequestOptions_body:
  assumes "Get (URLQuery r) ''query'' = []" "Method r = MethodPost" "Body r = Some rbody"
  shows "NewRequestOptions L r =
    (if mediaType r = ContentTypeGraphQL then
        (case ReadAll rbody of
           (body, Some err) \<Rightarrow> Inr zeroRequestOptions
         | (body, None) \<Rightarrow> Inr (zeroRequestOptions\<lparr>Query := body\<rparr>))
      else if mediaType r = ContentTypeFormURLEncoded then
        (case ParseForm L r of
           Inl err \<Rightarrow> Inr zeroRequestOptions
         | Inr PostForm \<Rightarrow>
             (case getFromForm L PostForm of
                Some reqOpt \<Rightarrow> Inr reqOpt
              | None \<Rightarrow> Inr zeroRequestOptions))
      else if mediaType r = ContentTypeMultipartFormData then
        (case ParseMultipartForm L r MaxUploadMemorySize of
           Inl err \<Rightarrow> Inr zeroRequestOptions
         | Inr MultipartForm \<Rightarrow>
             (case getFromMultipartForm L MultipartForm of
                Some reqOpt \<Rightarrow> Inr reqOpt
              | None \<Rightarrow> Inr zeroRequestOptions))
      else
         (case ReadAll rbody of
               (body, Some err) \<Rightarrow> Inr zeroRequestOptions
             | (body, None) \<Rightarrow> Inr (fst (Unmarshal_options L body zeroRequestOptions))))"
proof -
  obtain ts where "Split (Get (Header r) ''Content-Type'') CHR '';'' = mediaType r # ts"
    unfolding mediaType_def using Split_takeWhile by blast
  with assms show ?thesis
    by (simp add: NewRequestOptions_def getFromForm_None Let_def)
qed


text \<open>
  Claim C1. A request whose URL query string has a non-empty \<^verbatim>\<open>query\<close> parameter (the
  value \<^verbatim>\<open>Get("query")\<close> reads) resolves to options made from the query string alone:
  that query, the operation name of the query string, and the variables decoded from
  its \<^verbatim>\<open>variables\<close> parameter into a fresh map. The method \<open>m\<close>, the header \<open>h\<close> and the
  body \<open>b\<close> of the request are arbitrary.
\<close>

theorem query_string_precedence:
  assumes "Get (URLQuery r) ''query'' \<noteq> []"
  shows "NewRequestOptions L (r\<lparr>Method := m, Header := h, Body := b\<rparr>) =
    Inr \<lparr>Query = Get (URLQuery r) ''query'',
         Variables = fst (Unmarshal_map L (Get (URLQuery r) ''variables'') (Some Map.empty)),
         OperationName = Get (URLQuery r) ''operationName'', File = None\<rparr>"
  using assms by (simp add: NewRequestOptions_def getFromForm_Some)

theorem query_string_precedence_witness:
  "Get [''query'' \<mapsto> [''{a}''], ''variables'' \<mapsto> [''{\"x\":1}''], ''operationName'' \<mapsto> [''Op'']] ''query'' \<noteq> [] \<and>
   NewRequestOptions testLibrary
     \<lparr>Method = ''POST'',
      URLQuery = [''query'' \<mapsto> [''{a}''], ''variables'' \<mapsto> [''{\"x\":1}''], ''operationName'' \<mapsto> [''Op'']],
      Header = [''Content-Type'' \<mapsto> [''application/graphql'']],
      Body = Some (Reader ''{b}'' None)\<rparr> =
   Inr \<lparr>Query = ''{a}'', Variables = Some [''x'' \<mapsto> 1], OperationName = ''Op'', File = None\<rparr>"
proof -
  let ?q = "[''query'' \<mapsto> [''{a}''], ''variables'' \<mapsto> [''{\"x\":1}''], ''operationName'' \<mapsto> [''Op'']]"
  show ?thesis
    using query_string_precedence [where L = testLibrary
        and r = "\<lparr>Method = ''GET'', URLQuery = ?q, Header = Map.empty, Body = None\<rparr>"
        and m = "''POST''" and h = "[''Content-Type'' \<mapsto> [''application/graphql'']]"
        and b = "Some (Reader ''{b}'' None)"]
    by (simp add: Get_def Unmarshal_map_def testLibrary_def)
qed



text \<open>
  Claim C6. A POST request with no usable \<^verbatim>\<open>query\<close> in the URL query string and the
  content type \<^verbatim>\<open>application/graphql\<close>, alone or followed by \<^verbatim>\<open>;\<close> and parameters,
  resolves to options whose query is the whole body, with no variables, an empty
  operation name and no files. The whole body is what reading it to the end yields
  (\<open>rawBody\<close>; nothing for a \<^verbatim>\<open>nil\<close> body).
\<close>

theorem graphql_body_is_query:
  assumes "Get (URLQuery r) ''query'' = []" and "Method r = MethodPost"
    and "Get (Header r) ''Content-Type'' = ContentTypeGraphQL \<or>
         Get (Header r) ''Content-Type'' = ContentTypeGraphQL @ CHR '';'' # params"
    and "rawBody r = Some body"
  shows "NewRequestOptions L r =
           Inr \<lparr>Query = body, Variables = None, OperationName = [], File = None\<rparr>"
proof -
  have mt: "mediaType r = ContentTypeGraphQL"
    using assms(3) by (auto simp: mediaType_def ContentTypeGraphQL_def)
  show ?thesis
  proof (cases "Body r")
    case None
    with assms(1,4) show ?thesis
      by (simp add: NewRequestOptions_def getFromForm_None rawBody_def zeroRequestOptions_def)
  next
    case (Some rbody)
    with assms(4) show ?thesis
      unfolding NewRequestOptions_body [OF assms(1,2) Some]
      by (auto simp: mt rawBody_def zeroRequestOptions_def split: prod.splits option.splits)
  qed
qed

theorem graphql_body_is_query_witness:
  "Get Map.empty ''query'' = [] \<and> ''POST'' = MethodPost \<and>
   Get [''Content-Type'' \<mapsto> [''application/graphql; charset=utf-8'']] ''Content-Type'' =
     ContentTypeGraphQL @ CHR '';'' # '' charset=utf-8'' \<and>
   rawBody \<lparr>Method = ''POST'', URLQuery = Map.empty,
            Header = [''Content-Type'' \<mapsto> [''application/graphql; charset=utf-8'']],
            Body = Some (Reader ''{hero{name}}'' None)\<rparr> = Some ''{hero{name}}'' \<and>
   NewRequestOptions testLibrary
     \<lparr>Method = ''POST'', URLQuery = Map.empty,
      Header = [''Content-Type'' \<mapsto> [''application/graphql; charset=utf-8'']],
      Body = Some (Reader ''{hero{name}}'' None)\<rparr> =
   Inr \<lparr>Query = ''{hero{name}}'', Variables = None, OperationName = [], File = None\<rparr>"
  using graphql_body_is_query [where L = testLibrary and body = "''{hero{name}}''"
      and params = "'' charset=utf-8''"
      and r = "\<lparr>Method = ''POST'', URLQuery = Map.empty,
                Header = [''Content-Type'' \<mapsto> [''application/graphql; charset=utf-8'']],
                Body = Some (Reader ''{hero{name}}'' None)\<rparr>"]
  by (simp add: Get_def MethodPost_def ContentTypeGraphQL_def rawBody_def)

text \<open>
  Claim C7, as stated, fails: the form data of this POST has a non-empty \<^verbatim>\<open>query\<close> and
  a \<^verbatim>\<open>variables\<close> field that is not valid JSON, but its URL query string has a
  \<^verbatim>\<open>query\<close> and valid \<^verbatim>\<open>variables\<close> of its own, which take precedence: the returned
  options carry the variables of the query string, not an empty mapping.
\<close>

theorem form_variables_counterexample:
  "Method formPost = MethodPost \<and>
   mediaType formPost = ContentTypeFormURLEncoded \<and>
   Body formPost = Some (Reader ''query={b}&variables=bad'' None) \<and>
   ParseForm testLibrary formPost = Inr [''query'' \<mapsto> [''{b}''], ''variables'' \<mapsto> [''bad'']] \<and>
   Get [''query'' \<mapsto> [''{b}''], ''variables'' \<mapsto> [''bad'']] ''query'' \<noteq> [] \<and>
   checkValid testLibrary (Get [''query'' \<mapsto> [''{b}''], ''variables'' \<mapsto> [''bad'']] ''variables'') \<noteq> None \<and>
   NewRequestOptions testLibrary formPost =
     Inr \<lparr>Query = ''{a}'', Variables = Some [''x'' \<mapsto> 1], OperationName = [], File = None\<rparr> \<and>
   \<not> emptyMap (Some [''x'' \<mapsto> 1::nat])"
  by (simp add: formPost_def MethodPost_def mediaType_def ContentTypeFormURLEncoded_def Get_def
      testLibrary_def NewRequestOptions_def getFromForm_def Unmarshal_map_def emptyMap_def)

text \<open>
  Claim C7, amended. For a POST with no usable \<^verbatim>\<open>query\<close> in the URL query string, whose
  form data (url-encoded, or multipart with the files \<open>files\<close>) has a non-empty \<^verbatim>\<open>query\<close>
  field and a \<^verbatim>\<open>variables\<close> field that is not valid JSON, resolution succeeds and the
  options carry the form's query and an empty variables mapping.
\<close>

theorem form_variables_invalid:
  assumes "Get (URLQuery r) ''query'' = []" and "Method r = MethodPost" and "Body r = Some rbody"
    and "mediaType r = ContentTypeFormURLEncoded \<and> ParseForm L r = Inr vals \<and> files = None \<or>
         mediaType r = ContentTypeMultipartFormData \<and>
         ParseMultipartForm L r MaxUploadMemorySize = Inr \<lparr>Value = vals, Files = files\<rparr>"
    and "Get vals ''query'' \<noteq> []"
    and "checkValid L (Get vals ''variables'') \<noteq> None"
  shows "NewRequestOptions L r =
           Inr \<lparr>Query = Get vals ''query'', Variables = Some Map.empty,
                OperationName = Get vals ''operationName'', File = files\<rparr>"
  using assms(4-6) unfolding NewRequestOptions_body [OF assms(1-3)]
  by (auto simp: getFromForm_Some getFromMultipartForm_Some Unmarshal_map_invalid
      ContentTypeFormURLEncoded_def ContentTypeMultipartFormData_def ContentTypeGraphQL_def)

theorem form_variables_invalid_witness:
  "Get Map.empty ''query'' = [] \<and> ''POST'' = MethodPost \<and>
   mediaType \<lparr>Method = ''POST'', URLQuery = Map.empty,
              Header = [''Content-Type'' \<mapsto> [''application/x-www-form-urlencoded'']],
              Body = Some (Reader ''query={b}&variables=bad'' None)\<rparr> = ContentTypeFormURLEncoded \<and>
   ParseForm testLibrary
     \<lparr>Method = ''POST'', URLQuery = Map.empty,
      Header = [''Content-Type'' \<mapsto> [''application/x-www-form-urlencoded'']],
      Body = Some (Reader ''query={b}&variables=bad'' None)\<rparr> =
     Inr [''query'' \<mapsto> [''{b}''], ''variables'' \<mapsto> [''bad'']] \<and>
   Get [''query'' \<mapsto> [''{b}''], ''variables'' \<mapsto> [''bad'']] ''query'' \<noteq> [] \<and>
   checkValid testLibrary (Get [''query'' \<mapsto> [''{b}''], ''variables'' \<mapsto> [''bad'']] ''variables'') \<noteq> None \<and>
   NewRequestOptions testLibrary
     \<lparr>Method = ''POST'', URLQuery = Map.empty,
      Header = [''Content-Type'' \<mapsto> [''application/x-www-form-urlencoded'']],
      Body = Some (Reader ''query={b}&variables=bad'' None)\<rparr> =
     Inr \<lparr>Query = ''{b}'', Variables = Some Map.empty, OperationName = [], File = None\<rparr>"
  using form_variables_invalid [where L = testLibrary
      and rbody = "Reader ''query={b}&variables=bad'' None"
      and vals = "[''query'' \<mapsto> [''{b}''], ''variables'' \<mapsto> [''bad'']]" and files = None
      and r = "\<lparr>Method = ''POST'', URLQuery = Map.empty,
                Header = [''Content-Type'' \<mapsto> [''application/x-www-form-urlencoded'']],
                Body = Some (Reader ''query={b}&variables=bad'' None)\<rparr>"]
  by (simp add: Get_def MethodPost_def mediaType_def ContentTypeFormURLEncoded_def testLibrary_def)

section \<open>The handler\<close>

subsection \<open>The formatting loop\<close>

lemma formatLoop_assigns:
  "i + length es \<le> length formatted \<Longrightarrow>
   formatLoop f es i formatted =
     Inr (take i formatted @ map (\<lambda>e. f (OriginalError e)) es @ drop (i + length es) formatted)"
proof (induction es arbitrary: i formatted)
  case Nil
  then show ?case by simp
next
  case (Cons e es)
  then have i: "i < length formatted" by simp
  have "formatLoop f (e # es) i formatted =
          formatLoop f es (Suc i) (formatted[i := f (OriginalError e)])"
    using i by simp
  also have "\<dots> = Inr (take (Suc i) (formatted[i := f (OriginalError e)]) @
                 map (\<lambda>e. f (OriginalError e)) es @
                 drop (Suc i + length es) (formatted[i := f (OriginalError e)]))"
    using Cons.prems by (intro Cons.IH) simp
  also have "take (Suc i) (formatted[i := f (OriginalError e)]) =
               take i formatted @ [f (OriginalError e)]"
    using i by (simp add: take_Suc_conv_app_nth)
  also have "drop (Suc i + length es) (formatted[i := f (OriginalError e)]) =
               drop (i + length (e # es)) formatted"
    by simp
  finally show ?case by simp
qed

lemma formatLoop_make:
  "formatLoop f es 0 (make_FormattedErrors (length es)) = Inr (map (\<lambda>e. f (OriginalError e)) es)"
  by (simp add: formatLoop_assigns make_FormattedErrors_def)

lemma formatResult_eq:
  "formatResult h result =
     Inr (case formatErrorFn h of
            None \<Rightarrow> result
          | Some f \<Rightarrow> result\<lparr>Errors := map (\<lambda>e. f (OriginalError e)) (Errors result)\<rparr>)"
proof (cases "formatErrorFn h")
  case None
  then show ?thesis by (simp add: formatResult_def)
next
  case (Some f)
  show ?thesis
  proof (cases "length (Errors result) > 0")
    case True
    with Some show ?thesis
      unfolding formatResult_def by (simp only: formatLoop_make Let_def) simp
  next
    case False
    with Some show ?thesis by (simp add: formatResult_def)
  qed
qed

subsection \<open>The paths of ContextHandler\<close>

lemma Contains_sublist: "Contains s substr = sublist substr s"
  by (induction s) (auto simp: sublist_Cons_right)

lemma ContextHandler_eq:
  assumes "Schema h = Some s" and "NewRequestOptions L r = Inr opts"
    and "graphql_Do L (newParams h s ctx r opts) \<sigma> = (result, \<tau>)"
    and "formatResult h result = Inr result'"
  shows "ContextHandler L title h ctx r \<sigma> =
           Inr (if consoleRequested h r then renderGraphiQL L title (newParams h s ctx r opts) \<tau>
                else writeJSON L h ctx (newParams h s ctx r opts) result' \<tau>)"
  using assms
  by (simp add: ContextHandler_def consoleRequested_def Contains_sublist Let_def)



lemma response_graphql_Do: "response (snd (graphql_Do L params \<sigma>)) = response \<sigma>"
  by (simp add: graphql_Do_def split: prod.split)


lemma trace_w_Writes:
  "trace (w_Writes bs \<sigma>) = trace \<sigma> @ map Wrote bs \<and> engine (w_Writes bs \<sigma>) = engine \<sigma>"
  by (induction bs arbitrary: \<sigma>) (simp_all add: w_Write_def)



lemma response_writeJSON:
  "response (writeJSON L h ctx params result \<sigma>) =
     \<lparr>ResponseHeader = Add (ResponseHeader (response \<sigma>)) ''Content-Type''
                         ''application/json; charset=utf-8'',
      Status = Some (case Status (response \<sigma>) of None \<Rightarrow> StatusOK | Some c \<Rightarrow> c),
      Written = Written (response \<sigma>) @
        (if pretty h then fst (MarshalIndent L result [] [CHR 0x09]) else fst (Marshal L result))\<rparr>"
  by (simp add: writeJSON_def w_Header_Add_def w_WriteHeader_def w_Write_def Write_def
      WriteHeader_def StatusOK_def Let_def split: option.split)


lemma trace_http_Error:
  "trace (http_Error err code \<sigma>) = trace \<sigma> @ [Wrote (err @ [CHR 0x0A])] \<and>
   engine (http_Error err code \<sigma>) = engine \<sigma>"
  by (simp add: http_Error_def w_Header_Set_def w_WriteHeader_def w_Write_def Let_def)

lemma trace_executeIndex:
  "\<exists>written. trace (executeIndex L title \<sigma>) = trace \<sigma> @ map Wrote written \<and>
     engine (executeIndex L title \<sigma>) = engine \<sigma>"
proof (cases "ExecuteTemplate L title")
  case (Pair page err)
  show ?thesis
  proof (cases err)
    case None
    with Pair have "trace (executeIndex L title \<sigma>) = trace \<sigma> @ map Wrote page \<and>
        engine (executeIndex L title \<sigma>) = engine \<sigma>"
      by (simp add: executeIndex_def trace_w_Writes)
    then show ?thesis by blast
  next
    case (Some e)
    with Pair have "trace (executeIndex L title \<sigma>) =
          trace \<sigma> @ map Wrote (page @ [e @ [CHR 0x0A]]) \<and>
        engine (executeIndex L title \<sigma>) = engine \<sigma>"
      by (simp add: executeIndex_def trace_http_Error trace_w_Writes)
    then show ?thesis by blast
  qed
qed

subsection \<open>The test data, evaluated\<close>

lemma test_options:
  "NewRequestOptions testLibrary browserGet = Inr testOptions"
  "NewRequestOptions testLibrary apiGet = Inr testOptions"
  by (simp_all add: NewRequestOptions_def getFromForm_def Get_def Unmarshal_map_def
      testLibrary_def browserGet_def apiGet_def testOptions_def)

lemma test_params:
  "newParams testHandler 7 0 browserGet testOptions = testParams"
  "newParams testHandler 7 0 apiGet testOptions = testParams"
  by (simp_all add: newParams_def testHandler_def testOptions_def testParams_def)

lemma test_Do: "Do testLibrary params e = (testResult, Suc e)"
  by (simp add: testLibrary_def testResult_def)

lemma test_graphql_Do:
  "graphql_Do testLibrary testParams freshWorld =
     (testResult, freshWorld\<lparr>engine := 1, trace := [Executed testParams]\<rparr>)"
  by (simp add: graphql_Do_def test_Do freshWorld_def)

lemma test_formatResult: "formatResult testHandler testResult = Inr testFormatted"
  by (simp add: formatResult_eq testHandler_def testResult_def testFormatted_def
      OriginalError_def)

lemma test_console:
  "consoleRequested testHandler browserGet" "\<not> consoleRequested testHandler apiGet"
  by (simp_all add: consoleRequested_def Contains_sublist [symmetric] testHandler_def
      browserGet_def apiGet_def Get_def)

lemma test_library:
  "Marshal testLibrary result = (''{}'', None)"
  "MarshalIndent testLibrary result pre indent = (''{'' @ indent @ ''}'', None)"
  "MarshalIndent_map testLibrary m pre indent = (''{}'', None)"
  "ParseTemplate testLibrary = None"
  "ExecuteTemplate testLibrary title = ([''<title>'', title], None)"
  by (simp_all add: testLibrary_def)

lemma test_handler:
  "Schema testHandler = Some 7" "\<not> pretty testHandler" "graphiql testHandler"
  by (simp_all add: testHandler_def)

subsection \<open>The claims about the handler\<close>



text \<open>
  Claim C4. When the console page is not served, the handler adds the value
  \<^verbatim>\<open>application/json; charset=utf-8\<close> to the \<^verbatim>\<open>Content-Type\<close> header of the response,
  writes status 200 (the status of the response, unless one was written before the
  handler ran) and appends the serialised result to the body, whatever the result is:
  its errors, as many as the engine reported, are inside the serialised value and
  nothing of the response depends on them.
\<close>

theorem json_emission:
  assumes "Schema h = Some s" and "NewRequestOptions L r = Inr opts"
    and "graphql_Do L (newParams h s ctx r opts) \<sigma> = (result, \<tau>)"
    and "formatResult h result = Inr result'"
    and "\<not> consoleRequested h r"
  shows "\<exists>\<sigma>'. ContextHandler L title h ctx r \<sigma> = Inr \<sigma>' \<and>
           ResponseHeader (response \<sigma>') ''Content-Type'' =
             Some ((case ResponseHeader (response \<sigma>) ''Content-Type'' of
                      None \<Rightarrow> [] | Some vs \<Rightarrow> vs) @ [''application/json; charset=utf-8'']) \<and>
           Status (response \<sigma>') =
             Some (case Status (response \<sigma>) of None \<Rightarrow> 200 | Some code \<Rightarrow> code) \<and>
           Written (response \<sigma>') =
             Written (response \<sigma>) @
               (if pretty h then fst (MarshalIndent L result' [] [CHR 0x09])
                else fst (Marshal L result')) \<and>
           length (Errors result') = length (Errors result)"
proof -
  have "response \<tau> = response \<sigma>"
    using response_graphql_Do [of L "newParams h s ctx r opts" \<sigma>] assms(3) by simp
  moreover have "length (Errors result') = length (Errors result)"
    using assms(4) by (auto simp: formatResult_eq split: option.splits)
  ultimately show ?thesis
    unfolding ContextHandler_eq [OF assms(1-4)] using assms(5)
    by (simp add: response_writeJSON Add_def StatusOK_def split: option.split)
qed

theorem json_emission_witness:
  "Schema testHandler = Some 7 \<and>
   NewRequestOptions testLibrary apiGet = Inr testOptions \<and>
   graphql_Do testLibrary (newParams testHandler 7 0 apiGet testOptions) freshWorld =
     (testResult, freshWorld\<lparr>engine := 1, trace := [Executed testParams]\<rparr>) \<and>
   formatResult testHandler testResult = Inr testFormatted \<and>
   \<not> consoleRequested testHandler apiGet \<and>
   length (Errors testResult) = 2 \<and>
   (\<exists>\<sigma>'. ContextHandler testLibrary ''GraphQL Playground'' testHandler 0 apiGet freshWorld =
            Inr \<sigma>' \<and>
         ResponseHeader (response \<sigma>') ''Content-Type'' =
           Some [''application/json; charset=utf-8''] \<and>
         Status (response \<sigma>') = Some 200 \<and>
         Written (response \<sigma>') = ''{}'')"
proof -
  let ?\<tau> = "freshWorld\<lparr>engine := 1, trace := [Executed testParams]\<rparr>"
  have a: "graphql_Do testLibrary (newParams testHandler 7 0 apiGet testOptions) freshWorld =
             (testResult, ?\<tau>)"
    by (simp add: test_params test_graphql_Do)
  have fresh: "ResponseHeader (response freshWorld) ''Content-Type'' = None"
    "Status (response freshWorld) = None" "Written (response freshWorld) = []"
    by (simp_all add: freshWorld_def)
  have n: "length (Errors testResult) = 2"
    by (simp add: testResult_def)
  show ?thesis
    using json_emission [OF test_handler(1) test_options(2) a test_formatResult test_console(2),
        of "''GraphQL Playground''"]
      test_handler(1) test_options(2) a test_formatResult test_console(2) n
    by (auto simp: fresh test_handler(2) test_library)
qed

text \<open>
  Claim C5. When a formatter \<open>f\<close> is configured and the result carries \<open>N \<ge> 1\<close> errors,
  the handler goes on (lines 155 to 161) with the same result whose errors are exactly
  \<open>N\<close> formatted errors, the \<open>i\<close>-th being \<open>f\<close> applied to the original error of the
  \<open>i\<close>-th reported one: the list is mapped, in order, nothing is filtered.
\<close>

theorem formatter_maps_errors:
  assumes "formatErrorFn h = Some f" and "length (Errors result) = N" and "1 \<le> N"
  shows "\<exists>formatted.
           formatResult h result = Inr (result\<lparr>Errors := formatted\<rparr>) \<and>
           length formatted = N \<and>
           (\<forall>i<N. formatted ! i = f (OriginalError (Errors result ! i))) \<and>
           formatted = map (\<lambda>e. f (OriginalError e)) (Errors result)"
  using assms by (auto simp: formatResult_eq)

theorem formatter_maps_errors_witness:
  "formatErrorFn testHandler =
     Some (\<lambda>err. \<lparr>Message = (case err of None \<Rightarrow> ''unknown'' | Some e \<Rightarrow> ''formatted '' @ e),
                  originalError = err\<rparr>) \<and>
   length [\<lparr>Message = ''first'', originalError = Some ''cause''\<rparr>,
           \<lparr>Message = ''second'', originalError = None\<rparr>] = 2 \<and> (1::nat) \<le> 2 \<and>
   formatResult testHandler
     \<lparr>Data = Some (5::nat),
      Errors = [\<lparr>Message = ''first'', originalError = Some ''cause''\<rparr>,
                \<lparr>Message = ''second'', originalError = None\<rparr>]\<rparr> =
   Inr \<lparr>Data = Some 5,
        Errors = [\<lparr>Message = ''formatted cause'', originalError = Some ''cause''\<rparr>,
                  \<lparr>Message = ''unknown'', originalError = None\<rparr>]\<rparr>"
  using formatter_maps_errors [where h = testHandler and N = 2
      and f = "\<lambda>err. \<lparr>Message = (case err of None \<Rightarrow> ''unknown'' | Some e \<Rightarrow> ''formatted '' @ e),
                        originalError = err\<rparr>"
      and result = "\<lparr>Data = Some (5::nat),
                      Errors = [\<lparr>Message = ''first'', originalError = Some ''cause''\<rparr>,
                                \<lparr>Message = ''second'', originalError = None\<rparr>]\<rparr>"]
  by (auto simp: testHandler_def OriginalError_def)

text \<open>
  Claim C10. For a request routed to the console page whose resolved query is not
  empty (and for which the two earlier exits of \<^verbatim>\<open>renderGraphiQL\<close> are not taken: the
  constant template parses and the variables serialise), the engine is executed twice
  with the same parameters, \<open>result_a\<close> by the handler and \<open>result_b\<close> by the renderer,
  both before anything is written; the engine is left in the state after the second
  execution. The response is made from \<open>result_b\<close> only through the error of its
  serialisation: status 500 with the error's text, or else the page.
\<close>

theorem console_executes_twice:
  assumes "Schema h = Some s" and "NewRequestOptions L r = Inr opts"
    and "consoleRequested h r" and "Query opts \<noteq> []"
    and "ParseTemplate L = None"
    and "snd (MarshalIndent_map L (Variables opts) [] ''  '') = None"
    and "params = newParams h s ctx r opts"
    and "Do L params (engine \<sigma>) = (result_a, e_a)" and "Do L params e_a = (result_b, e_b)"
    and "\<tau> = \<sigma>\<lparr>engine := e_b, trace := trace \<sigma> @ [Executed params, Executed params]\<rparr>"
  shows "\<exists>\<sigma>' written.
           ContextHandler L title h ctx r \<sigma> = Inr \<sigma>' \<and>
           \<sigma>' = (case snd (MarshalIndent L result_b [] ''  '') of
                   Some err \<Rightarrow> http_Error err StatusInternalServerError \<tau>
                 | None \<Rightarrow> executeIndex L title \<tau>) \<and>
           trace \<sigma>' = trace \<sigma> @ [Executed params, Executed params] @ map Wrote written \<and>
           engine \<sigma>' = e_b"
proof -
  let ?\<upsilon> = "\<sigma>\<lparr>engine := e_a, trace := trace \<sigma> @ [Executed params]\<rparr>"
  let ?\<sigma>' = "case snd (MarshalIndent L result_b [] ''  '') of
                 Some err \<Rightarrow> http_Error err StatusInternalServerError \<tau>
               | None \<Rightarrow> executeIndex L title \<tau>"
  have do1: "graphql_Do L (newParams h s ctx r opts) \<sigma> = (result_a, ?\<upsilon>)"
    using assms(7,8) by (simp add: graphql_Do_def)
  have do2: "graphql_Do L params ?\<upsilon> = (result_b, \<tau>)"
    using assms(9,10) by (simp add: graphql_Do_def)
  obtain result' where fmt: "formatResult h result_a = Inr result'"
    by (simp add: formatResult_eq)
  have params: "RequestString params = Query opts" "VariableValues params = Variables opts"
    using assms(7) by (simp_all add: newParams_def Let_def split: option.split)
  have "ContextHandler L title h ctx r \<sigma> = Inr (renderGraphiQL L title params ?\<upsilon>)"
    unfolding ContextHandler_eq [OF assms(1,2) do1 fmt] using assms(3,7) by simp
  also have "renderGraphiQL L title params ?\<upsilon> = ?\<sigma>'"
    using assms(4,5,6) params do2 by (simp add: renderGraphiQL_def split: option.split)
  finally have ch: "ContextHandler L title h ctx r \<sigma> = Inr ?\<sigma>'" .
  have "\<exists>written. trace ?\<sigma>' = trace \<tau> @ map Wrote written \<and> engine ?\<sigma>' = engine \<tau>"
  proof (cases "snd (MarshalIndent L result_b [] ''  '')")
    case None
    then show ?thesis using trace_executeIndex [of L title \<tau>] by simp
  next
    case (Some err)
    have "trace (http_Error err StatusInternalServerError \<tau>) =
            trace \<tau> @ map Wrote [err @ [CHR 0x0A]] \<and>
          engine (http_Error err StatusInternalServerError \<tau>) = engine \<tau>"
      by (simp add: trace_http_Error)
    with Some show ?thesis by (simp only: option.case) blast
  qed
  then obtain written where "trace ?\<sigma>' = trace \<tau> @ map Wrote written" "engine ?\<sigma>' = engine \<tau>"
    by blast
  with ch assms(10) show ?thesis by auto
qed

theorem console_executes_twice_witness:
  "Schema testHandler = Some 7 \<and>
   NewRequestOptions testLibrary browserGet = Inr testOptions \<and>
   consoleRequested testHandler browserGet \<and>
   Query testOptions \<noteq> [] \<and>
   ParseTemplate testLibrary = None \<and>
   snd (MarshalIndent_map testLibrary (Variables testOptions) [] ''  '') = None \<and>
   testParams = newParams testHandler 7 0 browserGet testOptions \<and>
   Do testLibrary testParams (engine freshWorld) = (testResult, 1) \<and>
   Do testLibrary testParams 1 = (testResult, 2) \<and>
   ContextHandler testLibrary ''GraphQL Playground'' testHandler 0 browserGet freshWorld =
     Inr \<lparr>response = \<lparr>ResponseHeader = Map.empty, Status = Some 200,
                       Written = ''<title>GraphQL Playground''\<rparr>,
          engine = 2,
          trace = [Executed testParams, Executed testParams,
                   Wrote ''<title>'', Wrote ''GraphQL Playground'']\<rparr>"
proof -
  let ?\<tau> = "freshWorld\<lparr>engine := 2,
      trace := trace freshWorld @ [Executed testParams, Executed testParams]\<rparr>"
  have q: "Query testOptions \<noteq> []"
    by (simp add: testOptions_def)
  have v: "snd (MarshalIndent_map testLibrary (Variables testOptions) [] ''  '') = None"
    by (simp add: test_library)
  have p: "testParams = newParams testHandler 7 0 browserGet testOptions"
    by (simp add: test_params)
  have d1: "Do testLibrary testParams (engine freshWorld) = (testResult, 1)"
    by (simp add: test_Do freshWorld_def)
  have d2: "Do testLibrary testParams 1 = (testResult, 2)"
    by (simp add: test_Do)
  have "?\<tau> = ?\<tau>" ..
  note console_executes_twice [OF test_handler(1) test_options(1) test_console(1) q
      test_library(4) v p d1 d2 this, of "''GraphQL Playground''"]
  moreover
  have "executeIndex testLibrary ''GraphQL Playground'' ?\<tau> =
          \<lparr>response = \<lparr>ResponseHeader = Map.empty, Status = Some 200,
                        Written = ''<title>GraphQL Playground''\<rparr>,
           engine = 2,
           trace = [Executed testParams, Executed testParams,
                    Wrote ''<title>'', Wrote ''GraphQL Playground'']\<rparr>"
    by (simp add: executeIndex_def test_library w_Write_def Write_def WriteHeader_def
        StatusOK_def freshWorld_def)
  ultimately show ?thesis
    using test_handler(1) test_options(1) test_console(1) q test_library(4) v p d1 d2
    by (simp add: test_library)
qed

text \<open>
  Claim C9. \<^verbatim>\<open>New\<close> panics with \<^verbatim>\<open>undefined GraphQL schema\<close> exactly when its
  configuration has no schema, which includes the \<^verbatim>\<open>nil\<close> configuration, replaced by
  the default one; with a schema it returns the handler of the configuration.
\<close>

theorem New_needs_schema:
  "(New p title = Inl (Panic ''undefined GraphQL schema'')) =
     (p = None \<or> (\<exists>c. p = Some c \<and> Schema_c c = None)) \<and>
   (\<forall>c s. p = Some c \<and> Schema_c c = Some s \<longrightarrow>
      New p title =
        Inr (\<lparr>Schema = Some s, pretty = Pretty c, graphiql = GraphiQL c,
              rootObjectFn = RootObjectFn c, resultCallbackFn = ResultCallbackFn c,
              formatErrorFn = FormatErrorFn c\<rparr>,
             if Title c \<noteq> [] then Title c else title))"
  by (cases p) (auto simp: New_def NewConfig_def Let_def)

theorem New_needs_schema_witness:
  "New (None :: (nat, nat) Config option) ''GraphQL Playground'' =
     Inl (Panic ''undefined GraphQL schema'') \<and>
   New (Some ((NewConfig :: (nat, nat) Config)\<lparr>Pretty := False\<rparr>)) ''GraphQL Playground'' =
     Inl (Panic ''undefined GraphQL schema'') \<and>
   New (Some ((NewConfig :: (nat, nat) Config)\<lparr>Schema_c := Some 7, Title := ''Console''\<rparr>))
       ''GraphQL Playground'' =
     Inr (\<lparr>Schema = Some 7, pretty = True, graphiql = True, rootObjectFn = None,
           resultCallbackFn = None, formatErrorFn = None\<rparr>, ''Console'')"
  using New_needs_schema [of "None :: (nat, nat) Config option" "''GraphQL Playground''"]
    New_needs_schema [of "Some ((NewConfig :: (nat, nat) Config)\<lparr>Pretty := False\<rparr>)"
      "''GraphQL Playground''"]
    New_needs_schema [of
      "Some ((NewConfig :: (nat, nat) Config)\<lparr>Schema_c := Some 7, Title := ''Console''\<rparr>)"
      "''GraphQL Playground''"]
  by (simp add: NewConfig_def)


end
